theory Spec2Isabelle
  imports Complex_Main
begin

section \<open>Python values and errors\<close>

text \<open>
  The exceptions the program can end with. \<open>ValueError\<close> is the one exception the
  program raises itself (in \<open>pad_to_size\<close>); \<open>ZeroDivisionError\<close> and \<open>IndexError\<close>
  come from Python's own division and list indexing; \<open>Propagated\<close> is any exception
  that comes out of a call into code outside the program (file I/O, the imaging and
  tensor libraries, a transform the caller supplied) and is not caught; it carries the
  text of that exception. An outside call returns \<open>Inl\<close> of that text when it raises.
\<close>

datatype error = ValueError string | ZeroDivisionError | IndexError | Propagated string

text \<open>The program catches nothing: an exception of an outside call propagates.\<close>

fun propagate :: "string + 'a \<Rightarrow> error + 'a" where
  "propagate (Inl e) = Inl (Propagated e)"
| "propagate (Inr v) = Inr v"

text \<open>
  A tensor: its shape and its elements. Element values are exact rationals (the
  floating-point values of the tensor library, idealised).
\<close>

record tensor =
  shape :: "int list"
  elems :: "rat list"

section \<open>\<open>unnormalize\<close>\<close>

text \<open>Broadcast arithmetic of a tensor with a Python scalar.\<close>

definition tensor_add_scalar :: "tensor \<Rightarrow> rat \<Rightarrow> tensor" where
  "tensor_add_scalar t c = t\<lparr>elems := map (\<lambda>x. x + c) (elems t)\<rparr>"

definition tensor_div_scalar :: "tensor \<Rightarrow> rat \<Rightarrow> tensor" where
  "tensor_div_scalar t c = t\<lparr>elems := map (\<lambda>x. x / c) (elems t)\<rparr>"

text \<open>\<^verbatim>\<open>return (tensor + 1) / 2.0\<close>\<close>

definition unnormalize :: "tensor \<Rightarrow> tensor" where
  "unnormalize t = tensor_div_scalar (tensor_add_scalar t 1) 2"

text \<open>
  The library transform \<^verbatim>\<open>transforms.Normalize(mean, std)\<close> on a one-channel tensor,
  as the library documents it: \<open>output = (input - mean) / std\<close>, element by element.
\<close>

definition Normalize :: "rat \<Rightarrow> rat \<Rightarrow> tensor \<Rightarrow> tensor" where
  "Normalize mean std t = t\<lparr>elems := map (\<lambda>x. (x - mean) / std) (elems t)\<rparr>"

section \<open>\<open>pad_to_size\<close>\<close>

text \<open>
  Python's \<open>>\<close> on tuples (\<open>torch.Size\<close> is a tuple subclass): the first position
  where the two differ decides; when one is a prefix of the other, the longer is greater.
\<close>

fun tuple_gt :: "int list \<Rightarrow> int list \<Rightarrow> bool" where
  "tuple_gt [] ys = False"
| "tuple_gt (x # xs) [] = True"
| "tuple_gt (x # xs) (y # ys) = (if x = y then tuple_gt xs ys else x > y)"

text \<open>
  The target size is passed either as a \<open>torch.Size\<close> or as a plain tuple; the two
  compare alike and differ only in how the error message prints them.
\<close>

datatype size_arg = TorchSize "int list" | PyTuple "int list"

fun items :: "size_arg \<Rightarrow> int list" where
  "items (TorchSize xs) = xs"
| "items (PyTuple xs) = xs"

text \<open>\<open>str\<close> of an integer, of a \<open>torch.Size\<close> and of a tuple, for the f-string.\<close>

fun str_nat :: "nat \<Rightarrow> string" where
  "str_nat n = (if n < 10 then [''0123456789'' ! n]
                else str_nat (n div 10) @ [''0123456789'' ! (n mod 10)])"

definition str_int :: "int \<Rightarrow> string" where
  "str_int i = (if i < 0 then ''-'' @ str_nat (nat (- i)) else str_nat (nat i))"

fun join_comma :: "string list \<Rightarrow> string" where
  "join_comma [] = []"
| "join_comma [s] = s"
| "join_comma (s # t # ss) = s @ '', '' @ join_comma (t # ss)"

fun str_size :: "size_arg \<Rightarrow> string" where
  "str_size (TorchSize xs) = ''torch.Size(['' @ join_comma (map str_int xs) @ ''])''"
| "str_size (PyTuple [x]) = ''('' @ str_int x @ '',)''"
| "str_size (PyTuple xs) = ''('' @ join_comma (map str_int xs) @ '')''"

definition size_mismatch_msg :: "int list \<Rightarrow> size_arg \<Rightarrow> string" where
  "size_mismatch_msg small target =
     ''Can't pad tensor of size '' @ str_size (TorchSize small) @
     '' to tensor of size '' @ str_size target @ ''.''"

text \<open>
  \<^verbatim>\<open>(large_size - small_size) / 2\<close> is Python's true division of two integers; its
  result is taken as the exact rational (a float holds it exactly for every difference
  below \<open>2^53\<close> in absolute value). \<open>math.floor\<close> and \<open>math.ceil\<close> return integers.
\<close>

definition true_div :: "int \<Rightarrow> int \<Rightarrow> rat" where
  "true_div a b = of_int a / of_int b"

definition math_floor :: "rat \<Rightarrow> int" where
  "math_floor x = \<lfloor>x\<rfloor>"

definition math_ceil :: "rat \<Rightarrow> int" where
  "math_ceil x = \<lceil>x\<rceil>"

text \<open>
  The loop over \<^verbatim>\<open>zip(small_tensor.shape, target_size)\<close>, appending the two amounts
  of each dimension to \<open>pad_twoside\<close>.
\<close>

fun pad_loop :: "(int \<times> int) list \<Rightarrow> int list \<Rightarrow> int list" where
  "pad_loop [] pad_twoside = pad_twoside"
| "pad_loop ((small_size, large_size) # rest) pad_twoside =
     pad_loop rest
       ((pad_twoside @ [math_floor (true_div (large_size - small_size) 2)])
          @ [math_ceil (true_div (large_size - small_size) 2)])"

text \<open>
  \<open>pad_to_size\<close>. The library function \<^verbatim>\<open>torch.nn.functional.pad\<close> is the parameter
  \<open>F_pad\<close>; it receives the tensor and the reversed list, and whatever it raises
  propagates.
\<close>

definition pad_to_size ::
  "(tensor \<Rightarrow> int list \<Rightarrow> string + tensor) \<Rightarrow> tensor \<Rightarrow> size_arg \<Rightarrow> error + tensor" where
  "pad_to_size F_pad small_tensor target_size =
     (if tuple_gt (shape small_tensor) (items target_size)
      then Inl (ValueError (size_mismatch_msg (shape small_tensor) target_size))
      else if shape small_tensor = items target_size
      then Inr small_tensor
      else propagate (F_pad small_tensor
                   (rev (pad_loop (zip (shape small_tensor) (items target_size)) []))))"


section \<open>\<open>compute_receptive_field\<close>\<close>

text \<open>
  A Python number is an \<open>int\<close> (unbounded) or a \<open>float\<close>. Floats are idealised as
  exact rationals: rounding and overflow of the 64-bit format are not modelled.
\<close>

datatype pynum = PyInt int | PyFloat rat

fun num_val :: "pynum \<Rightarrow> rat" where
  "num_val (PyInt i) = of_int i"
| "num_val (PyFloat r) = r"

text \<open>\<open>+\<close> and \<open>*\<close>: two ints give an int, anything else a float.\<close>

fun py_add :: "pynum \<Rightarrow> pynum \<Rightarrow> pynum" where
  "py_add (PyInt a) (PyInt b) = PyInt (a + b)"
| "py_add a b = PyFloat (num_val a + num_val b)"

fun py_mul :: "pynum \<Rightarrow> pynum \<Rightarrow> pynum" where
  "py_mul (PyInt a) (PyInt b) = PyInt (a * b)"
| "py_mul a b = PyFloat (num_val a * num_val b)"

text \<open>\<open>/\<close> is true division: always a float, and \<open>ZeroDivisionError\<close> on a zero divisor.\<close>

definition py_truediv :: "pynum \<Rightarrow> pynum \<Rightarrow> error + pynum" where
  "py_truediv a b =
     (if num_val b = 0 then Inl ZeroDivisionError else Inr (PyFloat (num_val a / num_val b)))"

text \<open>\<^verbatim>\<open>range(start, stop)\<close>; empty when \<open>stop \<le> start\<close>.\<close>

definition py_range :: "int \<Rightarrow> int \<Rightarrow> int list" where
  "py_range start stop = map (\<lambda>i. start + int i) [0..<nat (stop - start)]"

text \<open>
  The encoder loop, \<^verbatim>\<open>for layer in range(depth - 1)\<close>, on the pair
  \<open>(fov, downsample_factor_prod)\<close>.
\<close>

fun encoder_loop :: "int \<Rightarrow> int \<Rightarrow> int list \<Rightarrow> pynum \<times> pynum \<Rightarrow> pynum \<times> pynum" where
  "encoder_loop kernel_size downsample_factor [] (fov, downsample_factor_prod) =
     (fov, downsample_factor_prod)"
| "encoder_loop kernel_size downsample_factor (layer # layers) (fov, downsample_factor_prod) =
     (let fov = py_add fov (py_mul (PyInt (2 * (kernel_size - 1))) downsample_factor_prod);
          fov = py_mul fov (PyInt downsample_factor);
          downsample_factor_prod = py_mul downsample_factor_prod (PyInt downsample_factor)
      in encoder_loop kernel_size downsample_factor layers (fov, downsample_factor_prod))"

text \<open>
  The decoder loop, \<^verbatim>\<open>for layer in range(0, depth - 1)[::-1]\<close>; its first statement
  divides, so it can raise.
\<close>

fun decoder_loop ::
  "int \<Rightarrow> int \<Rightarrow> int list \<Rightarrow> pynum \<times> pynum \<Rightarrow> error + pynum \<times> pynum" where
  "decoder_loop kernel_size downsample_factor [] (fov, downsample_factor_prod) =
     Inr (fov, downsample_factor_prod)"
| "decoder_loop kernel_size downsample_factor (layer # layers) (fov, downsample_factor_prod) =
     (case py_truediv downsample_factor_prod (PyInt downsample_factor) of
        Inl e \<Rightarrow> Inl e
      | Inr downsample_factor_prod \<Rightarrow>
          decoder_loop kernel_size downsample_factor layers
            (py_add fov (py_mul (PyInt (2 * (kernel_size - 1))) downsample_factor_prod),
             downsample_factor_prod))"

definition compute_receptive_field :: "int \<Rightarrow> int \<Rightarrow> int \<Rightarrow> error + pynum" where
  "compute_receptive_field depth kernel_size downsample_factor =
     (let (fov, downsample_factor_prod) =
            encoder_loop kernel_size downsample_factor (py_range 0 (depth - 1))
              (PyInt 1, PyInt 1);
          fov = py_add fov (py_mul (PyInt (2 * (kernel_size - 1))) downsample_factor_prod)
      in case decoder_loop kernel_size downsample_factor (rev (py_range 0 (depth - 1)))
                (fov, downsample_factor_prod) of
           Inl e \<Rightarrow> Inl e
         | Inr (fov, downsample_factor_prod) \<Rightarrow> Inr fov)"





section \<open>\<open>NucleiDataset\<close>\<close>

text \<open>
  A Python object held in the dataset's lists: \<open>None\<close> or a tensor.
\<close>

type_synonym pyobj = "tensor option"

text \<open>
  The calls into the operating system and the libraries, as parameters. \<open>'img\<close> is the
  imaging library's image type and \<open>'w\<close> the state of the tensor library's random
  number generator.
  \<^item> \<open>listdir\<close>: \<^verbatim>\<open>os.listdir\<close>;
  \<^item> \<open>path_join\<close>: \<^verbatim>\<open>os.path.join\<close> of three components;
  \<^item> \<open>open_image\<close>: \<^verbatim>\<open>Image.open(path)\<close> followed by \<^verbatim>\<open>image.load()\<close>;
  \<^item> \<open>Grayscale\<close>, \<open>ToTensor\<close>: the transforms of these names;
  \<^item> \<open>torch_seed\<close>: \<^verbatim>\<open>torch.seed()\<close>, which reseeds the generator from a
    non-deterministic source and returns the seed;
  \<^item> \<open>manual_seed\<close>: \<^verbatim>\<open>torch.manual_seed(seed)\<close>.
\<close>

record ('img, 'w) library =
  listdir :: "string \<Rightarrow> string + string list"
  path_join :: "string \<Rightarrow> string \<Rightarrow> string \<Rightarrow> string"
  open_image :: "string \<Rightarrow> string + 'img"
  Grayscale :: "'img \<Rightarrow> string + 'img"
  ToTensor :: "'img \<Rightarrow> string + tensor"
  torch_seed :: "'w \<Rightarrow> int \<times> 'w"
  manual_seed :: "int \<Rightarrow> 'w \<Rightarrow> 'w"

text \<open>
  A transform the caller supplies: it maps an object to an object, may raise, and
  reads and advances the generator state.
\<close>

type_synonym 'w transform_fn = "pyobj \<Rightarrow> 'w \<Rightarrow> (string + pyobj) \<times> 'w"

record 'w NucleiDataset =
  root_dir :: string
  samples :: "string list"
  transform :: "'w transform_fn option"
  img_transform :: "'w transform_fn option"
  loaded_imgs :: "pyobj list"
  loaded_masks :: "pyobj list"

text \<open>
  \<^verbatim>\<open>inp_transforms = Compose([Grayscale(), ToTensor(), Normalize([0.5], [0.5])])\<close>
\<close>

definition inp_transforms :: "('img, 'w) library \<Rightarrow> 'img \<Rightarrow> string + tensor" where
  "inp_transforms L img =
     (case Grayscale L img of
        Inl e \<Rightarrow> Inl e
      | Inr gray \<Rightarrow>
          (case ToTensor L gray of
             Inl e \<Rightarrow> Inl e
           | Inr t \<Rightarrow> Inr (Normalize (1 / 2) (1 / 2) t)))"

text \<open>
  One pass of the loading loop of \<open>__init__\<close> for the index \<open>sample_ind\<close>, on the two
  lists. \<open>sample_ind\<close> comes from \<^verbatim>\<open>range(len(self.samples))\<close>, so it is an index of all
  three lists.
\<close>

definition load_sample ::
  "('img, 'w) library \<Rightarrow> string \<Rightarrow> string list \<Rightarrow> nat \<Rightarrow> pyobj list \<times> pyobj list \<Rightarrow>
     string + pyobj list \<times> pyobj list" where
  "load_sample L rdir ss sample_ind = (\<lambda>(imgs, masks).
     (case open_image L (path_join L rdir (ss ! sample_ind) ''image.tif'') of
        Inl e \<Rightarrow> Inl e
      | Inr img \<Rightarrow>
     (case inp_transforms L img of
        Inl e \<Rightarrow> Inl e
      | Inr image_tensor \<Rightarrow>
     (let imgs = imgs[sample_ind := Some image_tensor] in
     (case open_image L (path_join L rdir (ss ! sample_ind) ''mask.tif'') of
        Inl e \<Rightarrow> Inl e
      | Inr msk \<Rightarrow>
     (case ToTensor L msk of
        Inl e \<Rightarrow> Inl e
      | Inr mask_tensor \<Rightarrow> Inr (imgs, masks[sample_ind := Some mask_tensor])))))))"

fun load_samples ::
  "('img, 'w) library \<Rightarrow> string \<Rightarrow> string list \<Rightarrow> nat list \<Rightarrow> pyobj list \<times> pyobj list \<Rightarrow>
     string + pyobj list \<times> pyobj list" where
  "load_samples L rdir ss [] st = Inr st"
| "load_samples L rdir ss (sample_ind # rest) st =
     (case load_sample L rdir ss sample_ind st of
        Inl e \<Rightarrow> Inl e
      | Inr st' \<Rightarrow> load_samples L rdir ss rest st')"

text \<open>\<open>NucleiDataset.__init__\<close>: the object it builds, or the exception it ends with.\<close>

definition NucleiDataset_init ::
  "('img, 'w) library \<Rightarrow> string \<Rightarrow> 'w transform_fn option \<Rightarrow> 'w transform_fn option \<Rightarrow>
     error + 'w NucleiDataset" where
  "NucleiDataset_init L rdir tr img_tr =
     (case listdir L rdir of
        Inl e \<Rightarrow> Inl (Propagated e)
      | Inr ss \<Rightarrow>
          (case load_samples L rdir ss [0..<length ss]
                  (replicate (length ss) None, replicate (length ss) None) of
             Inl e \<Rightarrow> Inl (Propagated e)
           | Inr (imgs, masks) \<Rightarrow>
               Inr \<lparr>root_dir = rdir, samples = ss, transform = tr, img_transform = img_tr,
                    loaded_imgs = imgs, loaded_masks = masks\<rparr>))"

text \<open>\<open>__len__\<close>\<close>

definition NucleiDataset_len :: "'w NucleiDataset \<Rightarrow> int" where
  "NucleiDataset_len ds = int (length (samples ds))"

text \<open>
  Indexing a Python list with an integer: a negative index counts from the end, an
  index outside the list raises \<open>IndexError\<close>.
\<close>

definition py_getitem :: "'a list \<Rightarrow> int \<Rightarrow> error + 'a" where
  "py_getitem xs idx =
     (if 0 \<le> idx \<and> idx < int (length xs) then Inr (xs ! nat idx)
      else if idx < 0 \<and> - int (length xs) \<le> idx then Inr (xs ! nat (idx + int (length xs)))
      else Inl IndexError)"

text \<open>The end of \<open>__getitem__\<close>: the optional transform of the image alone, and the return.\<close>

definition apply_img_transform ::
  "'w NucleiDataset \<Rightarrow> pyobj \<Rightarrow> pyobj \<Rightarrow> 'w \<Rightarrow> (error + pyobj \<times> pyobj) \<times> 'w" where
  "apply_img_transform ds img msk w =
     (case img_transform ds of
        None \<Rightarrow> (Inr (img, msk), w)
      | Some f \<Rightarrow>
          (case f img w of
             (Inl e, w') \<Rightarrow> (Inl (Propagated e), w')
           | (Inr img1, w') \<Rightarrow> (Inr (img1, msk), w')))"

text \<open>\<open>__getitem__\<close>, from the generator state \<open>w\<close>; it returns the state it leaves.\<close>

definition NucleiDataset_getitem ::
  "('img, 'w) library \<Rightarrow> 'w NucleiDataset \<Rightarrow> int \<Rightarrow> 'w \<Rightarrow> (error + pyobj \<times> pyobj) \<times> 'w" where
  "NucleiDataset_getitem L ds idx w =
     (case py_getitem (loaded_imgs ds) idx of
        Inl e \<Rightarrow> (Inl e, w)
      | Inr img \<Rightarrow>
     (case py_getitem (loaded_masks ds) idx of
        Inl e \<Rightarrow> (Inl e, w)
      | Inr msk \<Rightarrow>
     (case transform ds of
        None \<Rightarrow> apply_img_transform ds img msk w
      | Some tr \<Rightarrow>
          (let (seed, w) = torch_seed L w;
               w = manual_seed L seed w
           in case tr img w of
                (Inl e, w) \<Rightarrow> (Inl (Propagated e), w)
              | (Inr img, w) \<Rightarrow>
                  (let w = manual_seed L seed w
                   in case tr msk w of
                        (Inl e, w) \<Rightarrow> (Inl (Propagated e), w)
                      | (Inr msk, w) \<Rightarrow> apply_img_transform ds img msk w)))))"





text \<open>
  What \<open>__init__\<close> reads for the sample directory \<open>s\<close>: the tensor of its
  \<open>image.tif\<close> and the tensor of its \<open>mask.tif\<close>.
\<close>

definition image_of_sample :: "('img, 'w) library \<Rightarrow> string \<Rightarrow> string \<Rightarrow> string + tensor" where
  "image_of_sample L rdir s =
     (case open_image L (path_join L rdir s ''image.tif'') of
        Inl e \<Rightarrow> Inl e
      | Inr img \<Rightarrow> inp_transforms L img)"

definition mask_of_sample :: "('img, 'w) library \<Rightarrow> string \<Rightarrow> string \<Rightarrow> string + tensor" where
  "mask_of_sample L rdir s =
     (case open_image L (path_join L rdir s ''mask.tif'') of
        Inl e \<Rightarrow> Inl e
      | Inr msk \<Rightarrow> ToTensor L msk)"



text \<open>
  The paired transform in the words of the specification: one transform, applied to
  the image and to the mask from the same generator state \<open>g\<close>.
\<close>

definition paired_transform ::
  "'w transform_fn \<Rightarrow> 'w \<Rightarrow> pyobj \<Rightarrow> pyobj \<Rightarrow> (string + pyobj \<times> pyobj) \<times> 'w" where
  "paired_transform tr g img msk =
     (case tr img g of
        (Inl e, w) \<Rightarrow> (Inl e, w)
      | (Inr img1, w) \<Rightarrow>
          (case tr msk g of
             (Inl e, w') \<Rightarrow> (Inl e, w')
           | (Inr msk1, w') \<Rightarrow> (Inr (img1, msk1), w')))"

section \<open>A small concrete instance\<close>

text \<open>
  A directory \<open>d\<close> with the two samples \<open>a\<close> and \<open>b\<close>. An image is the list of its
  pixel values; the generator state is an integer; \<open>torch_seed\<close> moves to the next
  integer and \<open>manual_seed\<close> sets the state to the seed. The transform shifts every
  element by the generator state and advances the state.
\<close>

definition demo_library :: "(rat list, int) library" where
  "demo_library =
     \<lparr>listdir = (\<lambda>p. if p = ''d'' then Inr [''a'', ''b''] else Inl ''FileNotFoundError''),
      path_join = (\<lambda>a b c. a @ ''/'' @ b @ ''/'' @ c),
      open_image = (\<lambda>p.
         if p = ''d/a/image.tif'' then Inr [1]
         else if p = ''d/a/mask.tif'' then Inr [0]
         else if p = ''d/b/image.tif'' then Inr [1 / 2]
         else if p = ''d/b/mask.tif'' then Inr [1]
         else Inl ''FileNotFoundError''),
      Grayscale = Inr,
      ToTensor = (\<lambda>px. Inr \<lparr>shape = [1, 1, int (length px)], elems = px\<rparr>),
      torch_seed = (\<lambda>w. (w + 1, w + 1)),
      manual_seed = (\<lambda>s w. s)\<rparr>"

definition demo_transform :: "int transform_fn" where
  "demo_transform x g = (Inr (map_option (\<lambda>t. tensor_add_scalar t (of_int g)) x), g + 1)"

definition demo_dataset :: "int NucleiDataset" where
  "demo_dataset =
     \<lparr>root_dir = ''d'', samples = [''a'', ''b''],
      transform = Some demo_transform, img_transform = None,
      loaded_imgs = [Some \<lparr>shape = [1, 1, 1], elems = [1]\<rparr>,
                     Some \<lparr>shape = [1, 1, 1], elems = [0]\<rparr>],
      loaded_masks = [Some \<lparr>shape = [1, 1, 1], elems = [0]\<rparr>,
                      Some \<lparr>shape = [1, 1, 1], elems = [1]\<rparr>]\<rparr>"

section \<open>Properties of \<open>pad_to_size\<close>\<close>

lemma tuple_gt_irrefl: "\<not> tuple_gt xs xs"
  by (induction xs) auto

text \<open>
  C9. Padding a tensor to its own size returns the tensor itself: the size is not
  greater than itself, the equality test succeeds, and the library is not called.
\<close>

theorem pad_to_size_own_size:
  "pad_to_size F_pad t (TorchSize (shape t)) = Inr t \<and>
   pad_to_size F_pad t (PyTuple (shape t)) = Inr t"
  by (simp add: pad_to_size_def tuple_gt_irrefl)

lemma floor_half: "math_floor (true_div d 2) = d div 2"
  unfolding math_floor_def true_div_def
  using floor_divide_of_int_eq[of d 2, where ?'a = rat] by simp

lemma ceil_half: "math_ceil (true_div d 2) = (d + 1) div 2"
  unfolding math_ceil_def true_div_def by linarith

















text \<open>
  C1. A tensor of shape (1, 4, 8) and the target (2, 6, 6): the last dimension of the
  target is smaller than the tensor's, and \<open>pad_to_size\<close> does not raise; it calls the
  library with the list (-1, -1, 1, 1, 1, 0) and returns what the library returns.
\<close>

theorem pad_to_size_larger_dimension_not_rejected:
  "pad_to_size F_pad \<lparr>shape = [1, 4, 8], elems = es\<rparr> (TorchSize [2, 6, 6]) =
     propagate (F_pad \<lparr>shape = [1, 4, 8], elems = es\<rparr> [- 1, - 1, 1, 1, 1, 0])"
  by (simp add: pad_to_size_def floor_half ceil_half)

section \<open>Properties of \<open>compute_receptive_field\<close>\<close>



















text \<open>
  C3. \<open>compute_receptive_field(1, 3, 2)\<close> returns the integer 5, which is
  \<open>1 + 2 * (3 - 1)\<close>; both loops range over the empty list, so neither body runs.
\<close>

theorem compute_receptive_field_depth_one:
  "compute_receptive_field 1 3 2 = Inr (PyInt 5) \<and>
   (5::int) = 1 + 2 * (3 - 1) \<and>
   py_range 0 (1 - 1) = [] \<and> rev (py_range 0 (1 - 1)) = []"
  by (simp add: compute_receptive_field_def py_range_def)

section \<open>Properties of \<open>NucleiDataset\<close>\<close>

lemma load_sample_eq:
  "load_sample L rdir ss i (imgs, masks) =
     (case image_of_sample L rdir (ss ! i) of
        Inl e \<Rightarrow> Inl e
      | Inr it \<Rightarrow>
          (case mask_of_sample L rdir (ss ! i) of
             Inl e \<Rightarrow> Inl e
           | Inr mt \<Rightarrow> Inr (imgs[i := Some it], masks[i := Some mt])))"
  by (simp add: load_sample_def image_of_sample_def mask_of_sample_def Let_def
      split: sum.splits)


lemma load_samples_succeeds:
  assumes "\<forall>i \<in> set is. (\<exists>it. image_of_sample L rdir (ss ! i) = Inr it) \<and>
                         (\<exists>mt. mask_of_sample L rdir (ss ! i) = Inr mt)"
  shows "\<exists>st'. load_samples L rdir ss is st = Inr st'"
  using assms
proof (induction "is" arbitrary: st)
  case Nil
  show ?case by simp
next
  case (Cons j rest)
  obtain imgs masks where st: "st = (imgs, masks)" by (cases st)
  from Cons.prems obtain it mt where
    "image_of_sample L rdir (ss ! j) = Inr it" "mask_of_sample L rdir (ss ! j) = Inr mt"
    by auto
  then have "load_sample L rdir ss j st = Inr (imgs[j := Some it], masks[j := Some mt])"
    by (simp add: st load_sample_eq)
  moreover have "\<exists>st'. load_samples L rdir ss rest (imgs[j := Some it], masks[j := Some mt]) = Inr st'"
    using Cons.prems by (intro Cons.IH) simp
  ultimately show ?case by simp
qed

lemma init_fields:
  assumes "NucleiDataset_init L rdir tr img_tr = Inr ds"
  shows "listdir L rdir = Inr (samples ds) \<and> root_dir ds = rdir \<and>
         transform ds = tr \<and> img_transform ds = img_tr \<and>
         load_samples L rdir (samples ds) [0..<length (samples ds)]
           (replicate (length (samples ds)) None, replicate (length (samples ds)) None)
           = Inr (loaded_imgs ds, loaded_masks ds)"
  using assms by (auto simp: NucleiDataset_init_def split: sum.splits prod.splits)








text \<open>
  C8. When the directory listing has \<open>N\<close> entries and the image and the mask of each
  of them load, \<open>__init__\<close> returns a dataset and \<open>__len__\<close> of it is \<open>N\<close>; and
  whenever \<open>__init__\<close> returns a dataset, its \<open>__len__\<close> is the number of entries of the
  directory listing.
\<close>

theorem NucleiDataset_len_counts_samples:
  "(listdir L rdir = Inr names \<and>
    (\<forall>s \<in> set names. (\<exists>it. image_of_sample L rdir s = Inr it) \<and>
                      (\<exists>mt. mask_of_sample L rdir s = Inr mt)) \<longrightarrow>
      (\<exists>ds. NucleiDataset_init L rdir tr img_tr = Inr ds \<and>
            NucleiDataset_len ds = int (length names))) \<and>
   (\<forall>ds. NucleiDataset_init L rdir tr img_tr = Inr ds \<longrightarrow>
      (\<exists>names. listdir L rdir = Inr names \<and> NucleiDataset_len ds = int (length names)))"
proof (intro conjI impI allI)
  assume h: "listdir L rdir = Inr names \<and>
    (\<forall>s \<in> set names. (\<exists>it. image_of_sample L rdir s = Inr it) \<and>
                      (\<exists>mt. mask_of_sample L rdir s = Inr mt))"
  let ?n = "length names"
  have "\<forall>i \<in> set [0..<?n]. (\<exists>it. image_of_sample L rdir (names ! i) = Inr it) \<and>
                         (\<exists>mt. mask_of_sample L rdir (names ! i) = Inr mt)"
    using h by simp
  from load_samples_succeeds[OF this] obtain imgs masks where
    "load_samples L rdir names [0..<?n] (replicate ?n None, replicate ?n None)
       = Inr (imgs, masks)"
    by (metis surj_pair)
  with h show "\<exists>ds. NucleiDataset_init L rdir tr img_tr = Inr ds \<and>
            NucleiDataset_len ds = int (length names)"
    by (simp add: NucleiDataset_init_def NucleiDataset_len_def)
next
  fix ds
  assume "NucleiDataset_init L rdir tr img_tr = Inr ds"
  from init_fields[OF this]
  show "\<exists>names. listdir L rdir = Inr names \<and> NucleiDataset_len ds = int (length names)"
    by (simp add: NucleiDataset_len_def)
qed


theorem NucleiDataset_len_counts_samples_witness:
  "listdir demo_library ''d'' = Inr [''a'', ''b''] \<and>
   image_of_sample demo_library ''d'' ''a'' = Inr \<lparr>shape = [1, 1, 1], elems = [1]\<rparr> \<and>
   mask_of_sample demo_library ''d'' ''a'' = Inr \<lparr>shape = [1, 1, 1], elems = [0]\<rparr> \<and>
   image_of_sample demo_library ''d'' ''b'' = Inr \<lparr>shape = [1, 1, 1], elems = [0]\<rparr> \<and>
   mask_of_sample demo_library ''d'' ''b'' = Inr \<lparr>shape = [1, 1, 1], elems = [1]\<rparr> \<and>
   (\<exists>ds. NucleiDataset_init demo_library ''d'' (Some demo_transform) None = Inr ds \<and>
         NucleiDataset_len ds = 2)"
proof -
  have l: "listdir demo_library ''d'' = Inr [''a'', ''b'']"
    by (simp add: demo_library_def)
  have a: "image_of_sample demo_library ''d'' ''a'' = Inr \<lparr>shape = [1, 1, 1], elems = [1]\<rparr>"
    "image_of_sample demo_library ''d'' ''b'' = Inr \<lparr>shape = [1, 1, 1], elems = [0]\<rparr>"
    by (simp_all add: image_of_sample_def demo_library_def inp_transforms_def Normalize_def)
  have b: "mask_of_sample demo_library ''d'' ''a'' = Inr \<lparr>shape = [1, 1, 1], elems = [0]\<rparr>"
    "mask_of_sample demo_library ''d'' ''b'' = Inr \<lparr>shape = [1, 1, 1], elems = [1]\<rparr>"
    by (simp_all add: mask_of_sample_def demo_library_def)
  have "\<exists>ds. NucleiDataset_init demo_library ''d'' (Some demo_transform) None = Inr ds \<and>
         NucleiDataset_len ds = int (length [''a'', ''b''])"
    using NucleiDataset_len_counts_samples
      [of demo_library "''d''" "[''a'', ''b'']" "Some demo_transform" None, THEN conjunct1]
      l a b
    by simp
  with l a b show ?thesis by simp
qed

text \<open>
  C7. With a paired transform, \<open>__getitem__\<close> draws one seed, and runs the transform on
  the image in the generator state \<open>manual_seed seed\<close> gives and then on the mask in the
  state \<open>manual_seed\<close> gives for that same seed. When the state after
  \<open>manual_seed\<close> depends on the seed alone, the two runs start from one and the same
  state: \<open>__getitem__\<close> is the paired transform of the data model.
\<close>

theorem getitem_paired_seed:
  assumes "transform ds = Some tr"
    and "py_getitem (loaded_imgs ds) idx = Inr img"
    and "py_getitem (loaded_masks ds) idx = Inr msk"
    and "torch_seed L w = (seed, w1)"
  shows "NucleiDataset_getitem L ds idx w =
      (case tr img (manual_seed L seed w1) of
         (Inl e, w2) \<Rightarrow> (Inl (Propagated e), w2)
       | (Inr img1, w2) \<Rightarrow>
           (case tr msk (manual_seed L seed w2) of
              (Inl e, w3) \<Rightarrow> (Inl (Propagated e), w3)
            | (Inr msk1, w3) \<Rightarrow> apply_img_transform ds img1 msk1 w3)) \<and>
     ((\<forall>s a b. manual_seed L s a = manual_seed L s b) \<longrightarrow>
        NucleiDataset_getitem L ds idx w =
          (case paired_transform tr (manual_seed L seed w1) img msk of
             (Inl e, w') \<Rightarrow> (Inl (Propagated e), w')
           | (Inr (img1, msk1), w') \<Rightarrow> apply_img_transform ds img1 msk1 w'))"
proof (intro conjI impI)
  show 1: "NucleiDataset_getitem L ds idx w =
      (case tr img (manual_seed L seed w1) of
         (Inl e, w2) \<Rightarrow> (Inl (Propagated e), w2)
       | (Inr img1, w2) \<Rightarrow>
           (case tr msk (manual_seed L seed w2) of
              (Inl e, w3) \<Rightarrow> (Inl (Propagated e), w3)
            | (Inr msk1, w3) \<Rightarrow> apply_img_transform ds img1 msk1 w3))"
    using assms by (simp add: NucleiDataset_getitem_def Let_def split: prod.splits sum.splits)
  assume reseed: "\<forall>s a b. manual_seed L s a = manual_seed L s b"
  define g where "g = manual_seed L seed w1"
  have same: "manual_seed L seed a = g" for a
    unfolding g_def using reseed by blast
  show "NucleiDataset_getitem L ds idx w =
          (case paired_transform tr (manual_seed L seed w1) img msk of
             (Inl e, w') \<Rightarrow> (Inl (Propagated e), w')
           | (Inr (img1, msk1), w') \<Rightarrow> apply_img_transform ds img1 msk1 w')"
    unfolding 1 paired_transform_def
    by (simp add: same split: prod.splits sum.splits)
qed

theorem getitem_paired_seed_witness:
  "transform demo_dataset = Some demo_transform \<and>
   py_getitem (loaded_imgs demo_dataset) 0 = Inr (Some \<lparr>shape = [1, 1, 1], elems = [1]\<rparr>) \<and>
   py_getitem (loaded_masks demo_dataset) 0 = Inr (Some \<lparr>shape = [1, 1, 1], elems = [0]\<rparr>) \<and>
   torch_seed demo_library 5 = (6, 6) \<and>
   (\<forall>s a b. manual_seed demo_library s a = manual_seed demo_library s b) \<and>
   paired_transform demo_transform (manual_seed demo_library 6 6)
       (Some \<lparr>shape = [1, 1, 1], elems = [1]\<rparr>) (Some \<lparr>shape = [1, 1, 1], elems = [0]\<rparr>) =
     (Inr (Some \<lparr>shape = [1, 1, 1], elems = [7]\<rparr>, Some \<lparr>shape = [1, 1, 1], elems = [6]\<rparr>), 7) \<and>
   NucleiDataset_getitem demo_library demo_dataset 0 5 =
     (Inr (Some \<lparr>shape = [1, 1, 1], elems = [7]\<rparr>, Some \<lparr>shape = [1, 1, 1], elems = [6]\<rparr>), 7)"
proof -
  let ?img = "Some \<lparr>shape = [1, 1, 1], elems = [1]\<rparr>"
  let ?msk = "Some \<lparr>shape = [1, 1, 1], elems = [0]\<rparr>"
  have h1: "transform demo_dataset = Some demo_transform"
    by (simp add: demo_dataset_def)
  have h2: "py_getitem (loaded_imgs demo_dataset) 0 = Inr ?img"
    by (simp add: demo_dataset_def py_getitem_def)
  have h3: "py_getitem (loaded_masks demo_dataset) 0 = Inr ?msk"
    by (simp add: demo_dataset_def py_getitem_def)
  have h4: "torch_seed demo_library 5 = (6, 6)"
    by (simp add: demo_library_def)
  have h5: "\<forall>s a b. manual_seed demo_library s a = manual_seed demo_library s b"
    by (simp add: demo_library_def)
  have p: "paired_transform demo_transform (manual_seed demo_library 6 6) ?img ?msk =
     (Inr (Some \<lparr>shape = [1, 1, 1], elems = [7]\<rparr>, Some \<lparr>shape = [1, 1, 1], elems = [6]\<rparr>), 7)"
    by (simp add: paired_transform_def demo_transform_def demo_library_def
        tensor_add_scalar_def)
  have ai: "apply_img_transform demo_dataset x y w = (Inr (x, y), w)" for x y w
    by (simp add: apply_img_transform_def demo_dataset_def)
  from getitem_paired_seed[OF h1 h2 h3 h4, THEN conjunct2, THEN mp, OF h5]
  have "NucleiDataset_getitem demo_library demo_dataset 0 5 =
     (Inr (Some \<lparr>shape = [1, 1, 1], elems = [7]\<rparr>, Some \<lparr>shape = [1, 1, 1], elems = [6]\<rparr>), 7)"
    by (simp add: p ai)
  with h1 h2 h3 h4 h5 p show ?thesis by blast
qed

section \<open>Properties of \<open>unnormalize\<close>\<close>

text \<open>
  C10. \<open>unnormalize\<close> undoes \<open>Normalize([0.5], [0.5])\<close>: on every tensor, and so on
  every element \<open>x\<close>, \<open>unnormalize((x - 0.5) / 0.5) = x\<close> in exact arithmetic.
\<close>

theorem unnormalize_inverts_Normalize:
  "unnormalize (Normalize (1 / 2) (1 / 2) t) = t \<and>
   unnormalize \<lparr>shape = sh, elems = map (\<lambda>x. (x - 1 / 2) / (1 / 2)) xs\<rparr>
     = \<lparr>shape = sh, elems = xs\<rparr>"
  by (simp add: unnormalize_def Normalize_def tensor_add_scalar_def tensor_div_scalar_def
      o_def)

end
